theory Spec2Isabelle
  imports Complex_Main "HOL-Library.Char_ord" "HOL-Library.List_Lexorder" "HOL-Library.Multiset"
begin

section \<open>The PHENICX-Anechoic loader: values, errors and strings\<close>

text \<open>
  The module \<^verbatim>\<open>mirdata/datasets/phenicx_anechoic.py\<close> is embedded function by function.
  A Python exception is a value of \<open>error\<close>, and a function that may raise returns
  \<open>error + 'a\<close> with \<open>Inl\<close> for the exception. \<open>LengthMismatch\<close> is the length-mismatch
  error of the mixing routine. \<open>NotModelled\<close> is no Python exception: it marks an input
  on which the embedding does not follow the library routine it stands for (a regular
  expression with metacharacters, a case-insensitive match on text outside ASCII).

  The embedding is of the bodies of the functions, and of the decorator of
  \<^verbatim>\<open>load_audio\<close>. The annotations of the module and the decorator of \<^verbatim>\<open>scores\<close>
  name things it does not import (\<^verbatim>\<open>Optional\<close>, \<^verbatim>\<open>Tuple\<close>, \<^verbatim>\<open>BinaryIO\<close>,
  \<^verbatim>\<open>caches_property\<close>); they are left out.
\<close>

datatype error =
    ValueError | TypeError | AssertionError | IOError | KeyError | IndexError
  | NameError | AttributeError | LengthMismatch | NotModelled

text \<open>
  A Python \<^verbatim>\<open>str\<close> is a \<open>string\<close>; \<^verbatim>\<open>sorted\<close> on strings is \<open>sort\<close> in the
  lexicographic order of the characters' codes.
\<close>

text \<open>\<^verbatim>\<open>s.startswith(p)\<close>.\<close>

fun startswith :: "string \<Rightarrow> string \<Rightarrow> bool" where
  "startswith s [] = True"
| "startswith [] (p # ps) = False"
| "startswith (c # cs) (p # ps) = (c = p \<and> startswith cs ps)"

text \<open>\<^verbatim>\<open>sub in s\<close>: \<open>sub\<close> occurs in \<open>s\<close> as a contiguous run.\<close>

fun str_in :: "string \<Rightarrow> string \<Rightarrow> bool" where
  "str_in sub [] = (sub = [])"
| "str_in sub (c # cs) = (startswith (c # cs) sub \<or> str_in sub cs)"

text \<open>
  \<^verbatim>\<open>s.replace(old, '')\<close>: the occurrences of \<open>old\<close> are removed from left to right,
  each search resuming behind the occurrence just removed. With \<open>old\<close> empty the call
  returns \<open>s\<close>.
\<close>

function str_remove :: "string \<Rightarrow> string \<Rightarrow> string" where
  "str_remove old [] = []"
| "str_remove old (c # cs) =
     (if old \<noteq> [] \<and> startswith (c # cs) old
      then str_remove old (drop (length old) (c # cs))
      else c # str_remove old cs)"
  by pat_completeness auto
termination
  by (relation "measure (\<lambda>(old, s). length s)") (auto simp: Suc_lessI)

text \<open>\<^verbatim>\<open>sep.join(xs)\<close>.\<close>

fun str_join :: "string \<Rightarrow> string list \<Rightarrow> string" where
  "str_join sep [] = []"
| "str_join sep [x] = x"
| "str_join sep (x # y # ys) = x @ sep @ str_join sep (y # ys)"

text \<open>\<^verbatim>\<open>s.split(sep)\<close> for a one-character separator: never an empty list.\<close>

fun str_split :: "char \<Rightarrow> string \<Rightarrow> string list" where
  "str_split sep [] = [[]]"
| "str_split sep (c # cs) =
     (if c = sep then [] # str_split sep cs
      else (case str_split sep cs of
              [] \<Rightarrow> [[c]]
            | w # ws \<Rightarrow> (c # w) # ws))"

text \<open>\<^verbatim>\<open>s.strip(chars)\<close>: the characters of \<open>chars\<close> are removed at both ends.\<close>

definition str_strip :: "string \<Rightarrow> string \<Rightarrow> string" where
  "str_strip chars s =
     rev (dropWhile (\<lambda>c. c \<in> set chars) (rev (dropWhile (\<lambda>c. c \<in> set chars) s)))"

text \<open>
  \<^verbatim>\<open>f.readlines()\<close> on the text of a file: the lines, each with its newline; text
  after the last newline is a line of its own.
\<close>

fun readlines_acc :: "string \<Rightarrow> string \<Rightarrow> string list" where
  "readlines_acc cur [] = (if cur = [] then [] else [rev cur])"
| "readlines_acc cur (c # cs) =
     (if c = CHR ''\<newline>'' then rev (c # cur) # readlines_acc [] cs
      else readlines_acc (c # cur) cs)"

definition readlines :: "string \<Rightarrow> string list" where
  "readlines txt = readlines_acc [] txt"

text \<open>
  \<^verbatim>\<open>os.path.join(a, b)\<close> on POSIX. \<^verbatim>\<open>data_home\<close> defaults to \<^verbatim>\<open>None\<close>, and joining
  \<^verbatim>\<open>None\<close> with a path raises \<^verbatim>\<open>TypeError\<close>.
\<close>

definition os_path_join :: "string option \<Rightarrow> string \<Rightarrow> error + string" where
  "os_path_join a b =
     (case a of
        None \<Rightarrow> Inl TypeError
      | Some d \<Rightarrow>
          if startswith b ''/'' then Inr b
          else if d = [] \<or> last d = CHR ''/'' then Inr (d @ b)
          else Inr (d @ ''/'' @ b))"

subsection \<open>The fragment of \<^verbatim>\<open>re\<close> the loader uses\<close>

text \<open>
  The loader builds one pattern, \<^verbatim>\<open>'|'.join(instruments)\<close>, compiles it with
  \<^verbatim>\<open>re.IGNORECASE\<close> and calls \<^verbatim>\<open>search\<close>. When no alternative holds a metacharacter the
  pattern is an alternation of literal strings, and \<^verbatim>\<open>search\<close> succeeds iff one of them
  occurs in the subject, letters compared without case. An empty alternative matches
  every subject. Outside ASCII the case-insensitive comparison follows Unicode, which
  the embedding does not: such inputs, and patterns with metacharacters, give
  \<open>NotModelled\<close>.
\<close>

definition metachars :: string where
  "metachars = ''.^$*+?{}[]()'' @ [CHR 0x5C]"

definition ascii :: "string \<Rightarrow> bool" where
  "ascii s = list_all (\<lambda>c. (of_char c :: nat) < 128) s"

definition plain :: "string \<Rightarrow> bool" where
  "plain s = (list_all (\<lambda>c. c \<notin> set metachars) s \<and> ascii s)"

definition lower :: "char \<Rightarrow> char" where
  "lower c =
     (case map_of (zip ''ABCDEFGHIJKLMNOPQRSTUVWXYZ'' ''abcdefghijklmnopqrstuvwxyz'') c of
        Some l \<Rightarrow> l
      | None \<Rightarrow> c)"

definition re_search_ignorecase :: "string \<Rightarrow> string \<Rightarrow> error + bool" where
  "re_search_ignorecase pat s =
     (let alts = str_split (CHR ''|'') pat in
      if \<not> list_all plain alts then Inl NotModelled
      else if [] \<in> set alts then Inr True
      else if \<not> ascii s then Inl NotModelled
      else Inr (list_ex (\<lambda>alt. str_in (map lower alt) (map lower s)) alts))"

text \<open>A list comprehension with a condition that may raise: the first error wins.\<close>

fun filterE :: "('a \<Rightarrow> error + bool) \<Rightarrow> 'a list \<Rightarrow> error + 'a list" where
  "filterE p [] = Inr []"
| "filterE p (x # xs) =
     (case p x of
        Inl e \<Rightarrow> Inl e
      | Inr b \<Rightarrow>
          (case filterE p xs of
             Inl e \<Rightarrow> Inl e
           | Inr ys \<Rightarrow> Inr (if b then x # ys else ys)))"

text \<open>A loop or comprehension whose body may raise: the first error wins.\<close>

fun mapE :: "('a \<Rightarrow> error + 'b) \<Rightarrow> 'a list \<Rightarrow> error + 'b list" where
  "mapE f [] = Inr []"
| "mapE f (x # xs) =
     (case f x of
        Inl e \<Rightarrow> Inl e
      | Inr y \<Rightarrow> (case mapE f xs of Inl e \<Rightarrow> Inl e | Inr ys \<Rightarrow> Inr (y # ys)))"

section \<open>The index and the section map\<close>

text \<open>
  The index is JSON: a value under a key is a list of strings (\<^verbatim>\<open>[path, checksum]\<close>) or
  a dict again. A dict is an association list in the dict's iteration order; its keys
  are distinct. \<^verbatim>\<open>DATA.index['multitracks']\<close> maps a piece id to the piece's dict, and the
  file that holds it is not part of the module: every function that reads it takes it
  as its parameter \<open>index\<close>.
\<close>

datatype index_value = Files "string list" | Table "(string \<times> index_value) list"

type_synonym piece_entry = "(string \<times> index_value) list"

type_synonym multitracks = "(string \<times> piece_entry) list"

text \<open>\<^verbatim>\<open>d[k]\<close> on a dict.\<close>

definition dict_get :: "(string \<times> 'v) list \<Rightarrow> string \<Rightarrow> error + 'v" where
  "dict_get d k = (case map_of d k of None \<Rightarrow> Inl KeyError | Some v \<Rightarrow> Inr v)"

text \<open>\<^verbatim>\<open>v.items()\<close>: a list has no such method.\<close>

fun items :: "index_value \<Rightarrow> error + (string \<times> index_value) list" where
  "items (Table d) = Inr d"
| "items (Files l) = Inl AttributeError"

text \<open>\<^verbatim>\<open>v[0]\<close>: the first element of a list; on a dict, the key \<^verbatim>\<open>0\<close> is missing.\<close>

fun first_item :: "index_value \<Rightarrow> error + string" where
  "first_item (Files []) = Inl IndexError"
| "first_item (Files (p # ps)) = Inr p"
| "first_item (Table d) = Inl KeyError"

definition DATASET_SECTIONS :: "(string \<times> string) list" where
  "DATASET_SECTIONS =
     [(''doublebass'', ''strings''),
      (''cello'', ''strings''),
      (''clarinet'', ''woodwinds''),
      (''viola'', ''strings''),
      (''violin'', ''strings''),
      (''oboe'', ''woodwinds''),
      (''flute'', ''woodwinds''),
      (''trumpet'', ''brass''),
      (''bassoon'', ''woodwinds''),
      (''horn'', ''brass'')]"

section \<open>The files and the libraries that read them\<close>

text \<open>
  What the module asks of the world outside it: whether a path exists
  (\<^verbatim>\<open>os.path.exists\<close>), the text of a file, the samples and the sample rate that
  \<^verbatim>\<open>librosa.load(path, sr=None, mono=True)\<close> decodes from it, and the number that
  \<^verbatim>\<open>float\<close> reads from a field (\<open>None\<close> when it raises \<^verbatim>\<open>ValueError\<close>). Samples and
  times are real numbers: rounding, infinities and NaN are outside the embedding.
\<close>

record env =
  path_exists :: "string \<Rightarrow> bool"
  read_text :: "string \<Rightarrow> string"
  librosa_load :: "string \<Rightarrow> real list \<times> real"
  to_float :: "string \<Rightarrow> real option"

section \<open>\<^verbatim>\<open>load_audio\<close>\<close>

text \<open>
  The body of \<^verbatim>\<open>load_audio\<close> tests and decodes \<^verbatim>\<open>audio_path\<close>:
  \<^verbatim>\<open>if not os.path.exists(audio_path): raise IOError(...)\<close>, then
  \<^verbatim>\<open>return librosa.load(audio_path, sr=None, mono=True)\<close>.
\<close>

definition load_audio_body :: "env \<Rightarrow> string \<Rightarrow> error + (real list \<times> real)" where
  "load_audio_body e audio_path =
     (if \<not> path_exists e audio_path then Inl IOError
      else Inr (librosa_load e audio_path))"

text \<open>
  The function is declared \<^verbatim>\<open>def load_audio(fhandle)\<close>: its one local name is
  \<^verbatim>\<open>fhandle\<close>, and the module binds no \<^verbatim>\<open>audio_path\<close>. A name that is bound neither
  locally nor in the module raises \<^verbatim>\<open>NameError\<close> where it is first evaluated, here in
  the existence test.
\<close>

definition load_audio_undecorated :: "env \<Rightarrow> string \<Rightarrow> error + (real list \<times> real)" where
  "load_audio_undecorated e fhandle =
     (case map_of [(''fhandle'', fhandle)] ''audio_path'' of
        None \<Rightarrow> Inl NameError
      | Some audio_path \<Rightarrow> load_audio_body e audio_path)"

text \<open>
  Modelled from the spec: the decorator \<^verbatim>\<open>io.coerce_to_bytes_io\<close> of \<^verbatim>\<open>load_audio\<close> is not
  part of the module. It turns the path it is given into an open file and calls the
  function on it; the spec has an audio path that is ``absent on disk at access time''
  fail with a file-not-found error ``at the point of lazy access'', which is the
  \<^verbatim>\<open>FileNotFoundError\<close>, an \<^verbatim>\<open>IOError\<close>, of opening it. The open file stands for its path.
  What the decorator does with an empty path the spec does not say: \<open>NotModelled\<close>.
\<close>

definition coerce_to_bytes_io ::
  "env \<Rightarrow> (string \<Rightarrow> error + 'a) \<Rightarrow> string \<Rightarrow> error + 'a" where
  "coerce_to_bytes_io e func file_path =
     (if file_path = [] then Inl NotModelled
      else if \<not> path_exists e file_path then Inl IOError
      else func file_path)"

text \<open>\<^verbatim>\<open>load_audio\<close>, as the module defines it: the function under its decorator.\<close>

definition load_audio :: "env \<Rightarrow> string \<Rightarrow> error + (real list \<times> real)" where
  "load_audio e = coerce_to_bytes_io e (load_audio_undecorated e)"

section \<open>\<^verbatim>\<open>Track\<close>\<close>

record Track =
  track_id :: string
  instrument :: string
  piece :: string
  audio_paths :: "string list"
  n_voices :: nat
  notes_path :: string
  notes_original_path :: string

text \<open>\<^verbatim>\<open>xs[i]\<close> for \<open>i\<close> from 0.\<close>

definition list_get :: "'a list \<Rightarrow> nat \<Rightarrow> error + 'a" where
  "list_get xs i = (if i < length xs then Inr (xs ! i) else Inl IndexError)"

text \<open>
  Modelled from the spec: \<^verbatim>\<open>core.Track.__init__\<close>, which \<^verbatim>\<open>super().__init__\<close> calls, is
  not part of the module. The spec has a track ``constructed from an index entry'' and
  an id ``absent from the index'' fail ``immediately at construction'' as an invalid
  identifier: \<open>core_Track_init\<close> looks the id up under \<^verbatim>\<open>index['tracks']\<close> and returns
  the entry, which the class keeps as \<^verbatim>\<open>_track_paths\<close>.
\<close>

definition core_Track_init :: "string \<Rightarrow> piece_entry \<Rightarrow> error + piece_entry" where
  "core_Track_init tid index =
     (case dict_get index ''tracks'' of
        Inl e \<Rightarrow> Inl e
      | Inr tv \<Rightarrow>
          (case items tv of
             Inl e \<Rightarrow> Inl e
           | Inr d \<Rightarrow> (case map_of d tid of None \<Rightarrow> Inl ValueError | Some pv \<Rightarrow> items pv)))"

text \<open>
  The body of \<^verbatim>\<open>Track.__init__\<close>, its five parameters bound. \<^verbatim>\<open>dataset_name\<close> and
  \<^verbatim>\<open>metadata\<close> only pass through to the superclass.
\<close>

definition Track_init :: "string \<Rightarrow> string option \<Rightarrow> piece_entry \<Rightarrow> error + Track" where
  "Track_init tid home index =
     (case core_Track_init tid index of
        Inl e \<Rightarrow> Inl e
      | Inr paths \<Rightarrow>
     (case list_get (str_split (CHR ''-'') tid) 1 of
        Inl e \<Rightarrow> Inl e
      | Inr instr \<Rightarrow>
     (case list_get (str_split (CHR ''-'') tid) 0 of
        Inl e \<Rightarrow> Inl e
      | Inr pc \<Rightarrow>
     (case mapE (\<lambda>(key, v). case first_item v of Inl e \<Rightarrow> Inl e | Inr p \<Rightarrow> os_path_join home p)
             (filter (\<lambda>(key, v). str_in ''audio_'' key) paths) of
        Inl e \<Rightarrow> Inl e
      | Inr aps \<Rightarrow>
     (case dict_get paths ''notes'' of
        Inl e \<Rightarrow> Inl e
      | Inr nv \<Rightarrow>
     (case first_item nv of
        Inl e \<Rightarrow> Inl e
      | Inr np \<Rightarrow>
     (case os_path_join home np of
        Inl e \<Rightarrow> Inl e
      | Inr notes \<Rightarrow>
     (case dict_get paths ''notes_original'' of
        Inl e \<Rightarrow> Inl e
      | Inr ov \<Rightarrow>
     (case first_item ov of
        Inl e \<Rightarrow> Inl e
      | Inr op \<Rightarrow>
     (case os_path_join home op of
        Inl e \<Rightarrow> Inl e
      | Inr notes_original \<Rightarrow>
          Inr \<lparr>track_id = tid, instrument = instr, piece = pc, audio_paths = aps,
               n_voices = length aps, notes_path = notes,
               notes_original_path = notes_original\<rparr>))))))))))"

text \<open>
  A call \<^verbatim>\<open>Track(...)\<close>. \<^verbatim>\<open>Track.__init__\<close> declares five parameters besides
  \<^verbatim>\<open>self\<close> (\<^verbatim>\<open>track_id, data_home, dataset_name, index, metadata\<close>), none with a default:
  a call with another number of positional arguments raises \<^verbatim>\<open>TypeError\<close> before the
  body runs. The arguments are Python values; the body needs a string, a string or
  \<^verbatim>\<open>None\<close>, and the index, and \<open>TypeError\<close> also stands for its failure on values of
  other types, which no caller in the module passes.
\<close>

datatype pyval = PyStr string | PyNone | PyIndex piece_entry

fun Track_new :: "pyval list \<Rightarrow> error + Track" where
  "Track_new [PyStr tid, PyStr home, dataset_name, PyIndex index, metadata] =
     Track_init tid (Some home) index"
| "Track_new [PyStr tid, PyNone, dataset_name, PyIndex index, metadata] =
     Track_init tid None index"
| "Track_new args = Inl TypeError"

definition py_of_home :: "string option \<Rightarrow> pyval" where
  "py_of_home home = (case home of None \<Rightarrow> PyNone | Some d \<Rightarrow> PyStr d)"

subsection \<open>\<^verbatim>\<open>Track.audio\<close>\<close>

text \<open>
  \<^verbatim>\<open>audio_mix += audio\<close> on one-dimensional arrays adds sample by sample. numpy
  broadcasts a one-sample right operand over the left one; any other pair of unequal
  lengths raises \<^verbatim>\<open>ValueError\<close>.
\<close>

definition np_iadd :: "real list \<Rightarrow> real list \<Rightarrow> error + real list" where
  "np_iadd a b =
     (if length b = length a then Inr (map2 (+) a b)
      else if length b = 1 then Inr (map (\<lambda>x. x + hd b) a)
      else Inl ValueError)"

text \<open>
  The loop \<^verbatim>\<open>for i in range(1, self.n_voices)\<close> of \<^verbatim>\<open>Track.audio\<close>, over the indices
  still to visit, with \<open>load\<close> for the loader it calls.
\<close>

fun add_voices ::
  "(string \<Rightarrow> error + (real list \<times> real)) \<Rightarrow> string list \<Rightarrow> nat list \<Rightarrow> real list
     \<Rightarrow> error + real list" where
  "add_voices load paths [] audio_mix = Inr audio_mix"
| "add_voices load paths (i # is) audio_mix =
     (case list_get paths i of
        Inl e \<Rightarrow> Inl e
      | Inr p \<Rightarrow>
          (case load p of
             Inl e \<Rightarrow> Inl e
           | Inr (audio, sr) \<Rightarrow>
               (case np_iadd audio_mix audio of
                  Inl e \<Rightarrow> Inl e
                | Inr m \<Rightarrow> add_voices load paths is m)))"

definition audio_with ::
  "(string \<Rightarrow> error + (real list \<times> real)) \<Rightarrow> Track \<Rightarrow> error + (real list \<times> real)" where
  "audio_with load t =
     (case list_get (audio_paths t) 0 of
        Inl e \<Rightarrow> Inl e
      | Inr p0 \<Rightarrow>
          (case load p0 of
             Inl e \<Rightarrow> Inl e
           | Inr (audio_mix, sr) \<Rightarrow>
               (case add_voices load (audio_paths t) [1..<n_voices t] audio_mix of
                  Inl e \<Rightarrow> Inl e
                | Inr m \<Rightarrow> Inr (m, sr))))"

text \<open>The property \<^verbatim>\<open>Track.audio\<close>: the loop above, on the module's \<^verbatim>\<open>load_audio\<close>.\<close>

definition audio :: "env \<Rightarrow> Track \<Rightarrow> error + (real list \<times> real)" where
  "audio e t = audio_with (load_audio e) t"

section \<open>\<^verbatim>\<open>MultiTrack\<close>\<close>

record MultiTrack =
  mtrack_id :: string
  data_home :: "string option"
  mtrack_ids :: "string list"
  tracks :: "(string \<times> Track) list"
  instruments :: "string list"
  sections :: "string list"

text \<open>
  ``Parse the keys for the list of instruments'':
  \<^verbatim>\<open>sorted([source.replace('score-', '') for source in entry.keys() if 'score-' in source])\<close>.
\<close>

definition parse_instruments :: "piece_entry \<Rightarrow> string list" where
  "parse_instruments entry =
     sort (map (str_remove ''score-'') (filter (str_in ''score-'') (map fst entry)))"

text \<open>
  ``Get the corresponding sections for the instruments'': the sections of
  \<^verbatim>\<open>DATASET_SECTIONS\<close> whose instrument is among \<open>instrs\<close>, as
  \<^verbatim>\<open>sorted(list(set(...)))\<close>.
\<close>

definition corresponding_sections :: "string list \<Rightarrow> string list" where
  "corresponding_sections instrs =
     sort (remdups (map snd
       (filter (\<lambda>(instr, section). instr \<in> set instrs) DATASET_SECTIONS)))"

text \<open>
  \<^verbatim>\<open>MultiTrack.__init__(mtrack_id, data_home)\<close>. \<^verbatim>\<open>sorted(d.items())\<close> orders the pairs
  of a dict by their keys, which are distinct. Each track is built by the call
  \<^verbatim>\<open>Track(self.mtrack_id, k, self._data_home)\<close>, of three arguments.
\<close>

definition MultiTrack_init :: "multitracks \<Rightarrow> string \<Rightarrow> string option \<Rightarrow> error + MultiTrack" where
  "MultiTrack_init index mid home =
     (case map_of index mid of
        None \<Rightarrow> Inl ValueError
      | Some entry \<Rightarrow>
     (case dict_get entry ''tracks'' of
        Inl x \<Rightarrow> Inl x
      | Inr tv \<Rightarrow>
     (case items tv of
        Inl x \<Rightarrow> Inl x
      | Inr its \<Rightarrow>
     (case mapE (\<lambda>(k, v). case Track_new [PyStr mid, PyStr k, py_of_home home] of
                             Inl x \<Rightarrow> Inl x
                           | Inr t \<Rightarrow> Inr (k, t))
             (sort_key fst its) of
        Inl x \<Rightarrow> Inl x
      | Inr ts \<Rightarrow>
          Inr \<lparr>mtrack_id = mid, data_home = home,
               mtrack_ids = map fst (sort_key fst its),
               tracks = ts,
               instruments = parse_instruments entry,
               sections = corresponding_sections (parse_instruments entry)\<rparr>))))"

text \<open>
  The \<^verbatim>\<open>instruments\<close> argument of the accessors is one name or a list of names; a
  single name is wrapped into a list (\<^verbatim>\<open>isinstance(instruments, str)\<close>).
\<close>

datatype instruments_arg = Str string | Lst "string list"

fun as_list :: "instruments_arg \<Rightarrow> string list" where
  "as_list (Str s) = [s]"
| "as_list (Lst xs) = xs"

definition get_trackids :: "MultiTrack \<Rightarrow> instruments_arg \<Rightarrow> error + string list" where
  "get_trackids mt arg =
     (let instrs = as_list arg in
      if \<not> list_all (\<lambda>elem. elem \<in> set (instruments mt)) instrs then Inl AssertionError
      else filterE (re_search_ignorecase (str_join ''|'' instrs)) (mtrack_ids mt))"

subsection \<open>Mixing\<close>

text \<open>A buffer padded with zeros to \<open>n\<close> samples; whether all buffers have one length; the
  length of the longest.\<close>

definition pad_to :: "nat \<Rightarrow> real list \<Rightarrow> real list" where
  "pad_to n s = s @ replicate (n - length s) 0"

definition same_length :: "real list list \<Rightarrow> bool" where
  "same_length ss = (case ss of [] \<Rightarrow> True | s # rest \<Rightarrow> list_all (\<lambda>r. length r = length s) rest)"

definition longest :: "real list list \<Rightarrow> nat" where
  "longest ss = foldr (\<lambda>s n. max (length s) n) ss 0"

text \<open>
  Modelled from the spec: the arithmetic of \<^verbatim>\<open>core.MultiTrack.get_target\<close>, which is not
  part of the module. The spec (4.2) has the mix sum the audio signals of the matched
  sub-tracks, each scaled by its weight, with shorter buffers ``treated as implicitly
  zero beyond their end (sum uses the longest buffer's length)'', and divide the sum
  by the number of matched tracks when \<open>average\<close> is set.
\<close>

definition mix_signals :: "real list \<Rightarrow> real list list \<Rightarrow> bool \<Rightarrow> real list" where
  "mix_signals ws ss average =
     (let n = longest ss;
          total = foldr (\<lambda>(w, s) acc. map2 (+) (map ((*) w) (pad_to n s)) acc)
                    (zip ws ss) (replicate n 0)
      in if average then map (\<lambda>x. x / real (length ss)) total else total)"

text \<open>
  Modelled from the spec: \<^verbatim>\<open>core.MultiTrack.get_target\<close> is not part of the module. The
  spec (4.2) has it mix the audio signals of the given sub-tracks, unweighted when no
  weights are given, and, for the lengths, ``if \<open>enforce_length\<close> is true, all matched
  tracks must decode to identical sample counts, else fails with a length-mismatch
  error; if false, shorter buffers are treated as implicitly zero beyond their end''.
  The signal of a track is read through \<open>track_audio\<close>, the attribute that
  \<^verbatim>\<open>track_audio_property\<close> names. The spec does not say what a weight list of another
  length than the tracks gives; the model refuses it.
\<close>

definition get_target ::
  "(Track \<Rightarrow> error + (real list \<times> real)) \<Rightarrow> MultiTrack \<Rightarrow> string list \<Rightarrow> real list option
     \<Rightarrow> bool \<Rightarrow> bool \<Rightarrow> error + real list" where
  "get_target track_audio mt track_keys weights average enforce_length =
     (case mapE (\<lambda>k. case dict_get (tracks mt) k of
                        Inl x \<Rightarrow> Inl x
                      | Inr t \<Rightarrow> (case track_audio t of Inl x \<Rightarrow> Inl x | Inr (a, sr) \<Rightarrow> Inr a))
             track_keys of
        Inl x \<Rightarrow> Inl x
      | Inr signals \<Rightarrow>
          if enforce_length \<and> \<not> same_length signals then Inl LengthMismatch
          else (case weights of
                  None \<Rightarrow> Inr (mix_signals (replicate (length signals) 1) signals average)
                | Some ws \<Rightarrow>
                    if length ws \<noteq> length signals then Inl ValueError
                    else Inr (mix_signals ws signals average)))"

text \<open>
  \<^verbatim>\<open>get_audio_mix_instruments(instruments, weights, average, enforce_length)\<close> and the
  property \<^verbatim>\<open>audio_mix\<close>, for any attribute \<open>track_audio\<close>; the class sets
  \<^verbatim>\<open>track_audio_property = "audio"\<close>.
\<close>

definition get_audio_mix_instruments ::
  "(Track \<Rightarrow> error + (real list \<times> real)) \<Rightarrow> MultiTrack \<Rightarrow> instruments_arg \<Rightarrow> real list option
     \<Rightarrow> bool \<Rightarrow> bool \<Rightarrow> error + real list" where
  "get_audio_mix_instruments track_audio mt arg weights average enforce_length =
     (case get_trackids mt arg of
        Inl x \<Rightarrow> Inl x
      | Inr ids \<Rightarrow> get_target track_audio mt ids weights average enforce_length)"

definition audio_mix :: "(Track \<Rightarrow> error + (real list \<times> real)) \<Rightarrow> MultiTrack \<Rightarrow> error + real list" where
  "audio_mix track_audio mt =
     get_audio_mix_instruments track_audio mt (Lst (instruments mt)) None True False"


subsection \<open>Scores\<close>

text \<open>\<^verbatim>\<open>utils.EventData(start_times, end_times, event)\<close>: three arrays side by side.\<close>

record EventData =
  start_times :: "real list"
  end_times :: "real list"
  event :: "string list"

text \<open>
  The comprehension
  \<^verbatim>\<open>[v[0] for k, v in entry.items() if 'score-' in k and re.compile(pat, re.IGNORECASE).search(v[0])]\<close>:
  the pattern is matched against the path \<^verbatim>\<open>v[0]\<close>, not against the key.
\<close>

fun match_paths :: "string \<Rightarrow> piece_entry \<Rightarrow> error + string list" where
  "match_paths pat [] = Inr []"
| "match_paths pat ((k, v) # kvs) =
     (if str_in ''score-'' k then
        (case first_item v of
           Inl x \<Rightarrow> Inl x
         | Inr p \<Rightarrow>
             (case re_search_ignorecase pat p of
                Inl x \<Rightarrow> Inl x
              | Inr b \<Rightarrow>
                  (case match_paths pat kvs of
                     Inl x \<Rightarrow> Inl x
                   | Inr ps \<Rightarrow> Inr (if b then p # ps else ps))))
      else match_paths pat kvs)"

text \<open>
  \<^verbatim>\<open>np.loadtxt(full_path, delimiter=",", usecols=[0, 1], dtype=np.float)\<close> reads the rows
  of a text: each line is cut at the first \<^verbatim>\<open>#\<close> and stripped of its line end; a line
  that is empty by then is skipped; the others are split at the commas, and fields 0
  and 1 go through \<^verbatim>\<open>float\<close>.
\<close>

definition data_part :: "string \<Rightarrow> string" where
  "data_part line = str_strip [CHR 0x0D, CHR ''\<newline>''] (takeWhile (\<lambda>c. c \<noteq> CHR ''#'') line)"

definition parse_row :: "env \<Rightarrow> string \<Rightarrow> error + (real \<times> real)" where
  "parse_row e l =
     (case str_split (CHR '','') l of
        a # b # rest \<Rightarrow>
          (case to_float e a of
             None \<Rightarrow> Inl ValueError
           | Some x \<Rightarrow> (case to_float e b of None \<Rightarrow> Inl ValueError | Some y \<Rightarrow> Inr (x, y)))
      | _ \<Rightarrow> Inl IndexError)"

definition loadtxt :: "env \<Rightarrow> string \<Rightarrow> error + (real \<times> real) list" where
  "loadtxt e txt = mapE (parse_row e) (filter (\<lambda>l. l \<noteq> []) (map data_part (readlines txt)))"

text \<open>
  \<^verbatim>\<open>times[:, 0]\<close> and \<^verbatim>\<open>times[:, 1]\<close>. \<^verbatim>\<open>np.loadtxt\<close> squeezes its result (\<^verbatim>\<open>ndmin=0\<close>):
  two rows or more give a two-dimensional array, one row gives a one-dimensional
  array of its two numbers, no row an empty one-dimensional array; and an index with
  two positions raises \<^verbatim>\<open>IndexError\<close> on a one-dimensional array.
\<close>

definition columns :: "(real \<times> real) list \<Rightarrow> error + (real list \<times> real list)" where
  "columns rows =
     (if length rows < 2 then Inl IndexError else Inr (map fst rows, map snd rows))"

text \<open>\<^verbatim>\<open>[line.split(',')[2].strip('\n') for line in f.readlines()]\<close>.\<close>

definition read_notes :: "string \<Rightarrow> error + string list" where
  "read_notes txt =
     mapE (\<lambda>line. case list_get (str_split (CHR '','') line) 2 of
                     Inl x \<Rightarrow> Inl x
                   | Inr f \<Rightarrow> Inr (str_strip [CHR ''\<newline>''] f))
          (readlines txt)"

text \<open>The body of the loop \<^verbatim>\<open>for path in score_paths\<close>: what one file appends.\<close>

definition load_score_file ::
  "env \<Rightarrow> string option \<Rightarrow> string \<Rightarrow> error + (real list \<times> real list \<times> string list)" where
  "load_score_file e home path =
     (case os_path_join home path of
        Inl x \<Rightarrow> Inl x
      | Inr full_path \<Rightarrow>
          if \<not> path_exists e full_path then Inl IOError
          else
            (case loadtxt e (read_text e full_path) of
               Inl x \<Rightarrow> Inl x
             | Inr rows \<Rightarrow>
                 (case columns rows of
                    Inl x \<Rightarrow> Inl x
                  | Inr (st, en) \<Rightarrow>
                      (case read_notes (read_text e full_path) of
                         Inl x \<Rightarrow> Inl x
                       | Inr sc \<Rightarrow> Inr (st, en, sc)))))"

text \<open>\<^verbatim>\<open>np.concatenate\<close> raises \<^verbatim>\<open>ValueError\<close> on an empty list of arrays.\<close>

definition np_concatenate :: "'a list list \<Rightarrow> error + 'a list" where
  "np_concatenate xss = (if xss = [] then Inl ValueError else Inr (concat xss))"

text \<open>
  \<^verbatim>\<open>np.argsort\<close>: the positions of the array in ascending order of their values. Equal
  values keep their order here; numpy's default sort does not promise that.
\<close>

definition argsort :: "real list \<Rightarrow> nat list" where
  "argsort xs = map snd (sort_key fst (zip xs [0..<length xs]))"

text \<open>\<^verbatim>\<open>np.take_along_axis(a, ind, axis=0)\<close> on one-dimensional arrays: \<^verbatim>\<open>a[ind]\<close>.\<close>

definition take_along_axis :: "'a list \<Rightarrow> nat list \<Rightarrow> error + 'a list" where
  "take_along_axis a ind =
     (if list_all (\<lambda>i. i < length a) ind then Inr (map (\<lambda>i. a ! i) ind) else Inl IndexError)"

definition get_score_mix_instruments ::
  "env \<Rightarrow> multitracks \<Rightarrow> MultiTrack \<Rightarrow> instruments_arg \<Rightarrow> error + EventData" where
  "get_score_mix_instruments e index mt arg =
     (let instrs = as_list arg in
      if \<not> list_all (\<lambda>elem. elem \<in> set (instruments mt)) instrs then Inl AssertionError
      else
     (case dict_get index (mtrack_id mt) of
        Inl x \<Rightarrow> Inl x
      | Inr entry \<Rightarrow>
     (case match_paths (str_join ''|'' instrs) entry of
        Inl x \<Rightarrow> Inl x
      | Inr score_paths \<Rightarrow>
     (case mapE (load_score_file e (data_home mt)) score_paths of
        Inl x \<Rightarrow> Inl x
      | Inr loaded \<Rightarrow>
     (case np_concatenate (map fst loaded) of
        Inl x \<Rightarrow> Inl x
      | Inr st \<Rightarrow>
     (case np_concatenate (map (\<lambda>l. fst (snd l)) loaded) of
        Inl x \<Rightarrow> Inl x
      | Inr en \<Rightarrow>
     (case np_concatenate (map (\<lambda>l. snd (snd l)) loaded) of
        Inl x \<Rightarrow> Inl x
      | Inr sc \<Rightarrow>
     (case take_along_axis st (argsort st) of
        Inl x \<Rightarrow> Inl x
      | Inr st' \<Rightarrow>
     (case take_along_axis en (argsort st) of
        Inl x \<Rightarrow> Inl x
      | Inr en' \<Rightarrow>
     (case take_along_axis sc (argsort st) of
        Inl x \<Rightarrow> Inl x
      | Inr sc' \<Rightarrow>
          Inr \<lparr>start_times = st', end_times = en', event = sc'\<rparr>))))))))))"

section \<open>Sample data\<close>

text \<open>
  A piece as the constructor is meant to build it: two violins and an oboe, with a
  score for each instrument.
\<close>

definition sample_entry :: piece_entry where
  "sample_entry =
     [(''tracks'', Table [(''p-violin-1'', Table []), (''p-violin-2'', Table []),
                          (''p-oboe'', Table [])]),
      (''score-violin'', Files [''s/violin.txt'', ''c1'']),
      (''score-oboe'', Files [''s/oboe.txt'', ''c2''])]"

definition sample_index :: multitracks where
  "sample_index = [(''p'', sample_entry)]"

definition sample_mt :: MultiTrack where
  "sample_mt =
     \<lparr>mtrack_id = ''p'', data_home = Some ''d'',
      mtrack_ids = [''p-oboe'', ''p-violin-1'', ''p-violin-2''],
      tracks = [],
      instruments = [''oboe'', ''violin''],
      sections = [''strings'', ''woodwinds'']\<rparr>"

definition sample_env :: env where
  "sample_env =
     \<lparr>path_exists = (\<lambda>p. p \<in> set [''d/s/violin.txt'', ''d/s/oboe.txt'']),
      read_text = (\<lambda>p. if p = ''d/s/violin.txt'' then ''0.0,1.0,C4\<newline>1.0,2.0,D4\<newline>''
                        else if p = ''d/s/oboe.txt'' then ''0.5,1.5,A4\<newline>0.0,0.5,G4\<newline>''
                        else []),
      librosa_load = (\<lambda>p. ([], 44100)),
      to_float = map_of [(''0.0'', 0), (''0.5'', 1 / 2), (''1.0'', 1), (''1.5'', 3 / 2),
                         (''2.0'', 2)]\<rparr>"

text \<open>
  The shape the index gives the score keys of a piece: a key in which \<^verbatim>\<open>score-\<close>
  occurs is \<^verbatim>\<open>score-\<close> followed by a name in which it does not occur again.
\<close>

definition score_key_ok :: "string \<Rightarrow> bool" where
  "score_key_ok k =
     (if str_in ''score-'' k
      then startswith k ''score-'' \<and> \<not> str_in ''score-'' (drop (length ''score-'') k)
      else True)"

text \<open>
  A piece without sub-tracks, with the scores of three instruments; with \<open>bare_mt\<close> the
  object the constructor builds for it.
\<close>

definition bare_entry :: piece_entry where
  "bare_entry =
     [(''tracks'', Table []),
      (''score-violin'', Files [''s/violin.txt'', ''c1'']),
      (''score-horn'', Files [''s/horn.txt'', ''c2'']),
      (''score-cello'', Files [''s/cello.txt'', ''c3''])]"

definition bare_index :: multitracks where
  "bare_index = [(''q'', bare_entry)]"


text \<open>A piece whose score keys leave one name twice once \<^verbatim>\<open>score-\<close> is removed.\<close>

definition dup_index :: multitracks where
  "dup_index =
     [(''p'',
       [(''tracks'', Table []),
        (''score-a'', Files [''a.txt'', ''c1'']),
        (''score-score-a'', Files [''b.txt'', ''c2''])])]"

text \<open>
  A violin recorded in two voices and an oboe in one, with the files of all three
  voices on disk; the oboe's file is shorter than the violin's.
\<close>

definition voices_env :: env where
  "voices_env =
     \<lparr>path_exists = (\<lambda>p. p \<in> set [''d/v1.wav'', ''d/v2.wav'', ''d/o1.wav'']),
      read_text = (\<lambda>p. []),
      librosa_load = (\<lambda>p. if p = ''d/v1.wav'' then ([1, 2], 44100)
                            else if p = ''d/v2.wav'' then ([3, 4], 44100)
                            else if p = ''d/o1.wav'' then ([6], 44100)
                            else ([], 0)),
      to_float = (\<lambda>s. None)\<rparr>"

definition violin_track :: Track where
  "violin_track =
     \<lparr>track_id = ''p-violin'', instrument = ''violin'', piece = ''p'',
      audio_paths = [''d/v1.wav'', ''d/v2.wav''], n_voices = 2,
      notes_path = ''d/violin.txt'', notes_original_path = ''d/violin_o.txt''\<rparr>"

definition oboe_track :: Track where
  "oboe_track =
     \<lparr>track_id = ''p-oboe'', instrument = ''oboe'', piece = ''p'',
      audio_paths = [''d/o1.wav''], n_voices = 1,
      notes_path = ''d/oboe.txt'', notes_original_path = ''d/oboe_o.txt''\<rparr>"

definition mix_mt :: MultiTrack where
  "mix_mt =
     \<lparr>mtrack_id = ''p'', data_home = Some ''d'',
      mtrack_ids = [''p-oboe'', ''p-violin''],
      tracks = [(''p-oboe'', oboe_track), (''p-violin'', violin_track)],
      instruments = [''oboe'', ''violin''],
      sections = [''strings'', ''woodwinds'']\<rparr>"

text \<open>
  A piece without sub-tracks whose one score, the flute's, has a single row; with
  \<open>solo_mt\<close> the object the constructor builds for it.
\<close>

definition solo_entry :: piece_entry where
  "solo_entry = [(''tracks'', Table []), (''score-flute'', Files [''s/flute.txt'', ''c1''])]"

definition solo_index :: multitracks where
  "solo_index = [(''p'', solo_entry)]"

definition solo_mt :: MultiTrack where
  "solo_mt =
     \<lparr>mtrack_id = ''p'', data_home = Some ''d'', mtrack_ids = [], tracks = [],
      instruments = [''flute''], sections = [''woodwinds'']\<rparr>"

definition solo_env :: env where
  "solo_env =
     \<lparr>path_exists = (\<lambda>p. p = ''d/s/flute.txt''),
      read_text = (\<lambda>p. if p = ''d/s/flute.txt'' then ''0.0,1.0,C4\<newline>'' else []),
      librosa_load = (\<lambda>p. ([], 0)),
      to_float = map_of [(''0.0'', 0), (''1.0'', 1)]\<rparr>"

text \<open>
  A piece without sub-tracks with a score for \<^verbatim>\<open>bass\<close> and one for \<^verbatim>\<open>bassoon\<close>, two
  rows each; with \<open>bass_mt\<close> the object the constructor builds for it.
\<close>

definition bass_entry :: piece_entry where
  "bass_entry =
     [(''tracks'', Table []),
      (''score-bass'', Files [''s/bass.txt'', ''c1'']),
      (''score-bassoon'', Files [''s/bassoon.txt'', ''c2''])]"

definition bass_index :: multitracks where
  "bass_index = [(''p'', bass_entry)]"

definition bass_mt :: MultiTrack where
  "bass_mt =
     \<lparr>mtrack_id = ''p'', data_home = Some ''d'', mtrack_ids = [], tracks = [],
      instruments = [''bass'', ''bassoon''], sections = [''woodwinds'']\<rparr>"

definition bass_env :: env where
  "bass_env =
     \<lparr>path_exists = (\<lambda>p. p \<in> set [''d/s/bass.txt'', ''d/s/bassoon.txt'']),
      read_text = (\<lambda>p. if p = ''d/s/bass.txt'' then ''0.0,1.0,C4\<newline>1.0,2.0,D4\<newline>''
                        else if p = ''d/s/bassoon.txt''
                        then ''0.5,1.5,A4\<newline>1.5,2.0,G4\<newline>''
                        else []),
      librosa_load = (\<lambda>p. ([], 0)),
      to_float = map_of [(''0.0'', 0), (''0.5'', 1 / 2), (''1.0'', 1), (''1.5'', 3 / 2),
                         (''2.0'', 2)]\<rparr>"

text \<open>The files of the piece with \<^verbatim>\<open>bass\<close> and \<^verbatim>\<open>bassoon\<close>, the bassoon's score lost.\<close>

definition lost_env :: env where
  "lost_env =
     \<lparr>path_exists = (\<lambda>p. p = ''d/s/bass.txt''),
      read_text = (\<lambda>p. if p = ''d/s/bass.txt'' then ''0.0,1.0,C4\<newline>1.0,2.0,D4\<newline>''
                        else []),
      librosa_load = (\<lambda>p. ([], 0)),
      to_float = map_of [(''0.0'', 0), (''1.0'', 1), (''2.0'', 2)]\<rparr>"

section \<open>Properties of \<^verbatim>\<open>get_trackids\<close>\<close>

lemma filterE_all: "(\<And>x. p x = Inr True) \<Longrightarrow> filterE p xs = Inr xs"
  by (induction xs) simp_all

lemma re_search_empty_pattern: "re_search_ignorecase [] s = Inr True"
  by (simp add: re_search_ignorecase_def plain_def ascii_def)

text \<open>
  C10: with the empty list of instruments the membership assertion holds of no
  element and so passes, the pattern \<^verbatim>\<open>'|'.join([])\<close> is the empty pattern, which
  matches every id, and \<^verbatim>\<open>get_trackids\<close> returns all the sub-track ids of the piece, in
  their order: neither an empty list nor an error.
\<close>

theorem get_trackids_empty_request: "get_trackids mt (Lst []) = Inr (mtrack_ids mt)"
  by (simp add: get_trackids_def re_search_empty_pattern filterE_all)

lemma not_all_member:
  "x \<in> set xs \<Longrightarrow> x \<notin> set ys \<Longrightarrow> \<not> list_all (\<lambda>elem. elem \<in> set ys) xs"
  by (auto simp: list_all_iff)

text \<open>
  C3: a request (one name, or a list) that names an instrument outside the piece's
  instrument list fails with \<^verbatim>\<open>AssertionError\<close> in \<^verbatim>\<open>get_trackids\<close> and in
  \<^verbatim>\<open>get_score_mix_instruments\<close> alike, whatever the index and the files hold; in
  particular neither returns a result, empty or not.
\<close>

theorem unknown_instrument_fails:
  assumes "elem \<in> set (as_list arg)" and "elem \<notin> set (instruments mt)"
  shows "get_trackids mt arg = Inl AssertionError
       \<and> get_score_mix_instruments e index mt arg = Inl AssertionError
       \<and> get_trackids mt arg \<noteq> Inr []"
  using not_all_member [OF assms]
  by (simp add: get_trackids_def get_score_mix_instruments_def)

theorem unknown_instrument_fails_witness:
  "''tuba'' \<in> set (as_list (Str ''tuba'')) \<and> ''tuba'' \<notin> set (instruments sample_mt)
   \<and> get_trackids sample_mt (Str ''tuba'') = Inl AssertionError
   \<and> get_score_mix_instruments sample_env sample_index sample_mt (Str ''tuba'') = Inl AssertionError
   \<and> get_trackids sample_mt (Str ''tuba'') \<noteq> Inr []"
proof -
  have a: "''tuba'' \<in> set (as_list (Str ''tuba''))" by simp
  have b: "''tuba'' \<notin> set (instruments sample_mt)" by (simp add: sample_mt_def)
  show ?thesis
    using a b unknown_instrument_fails [OF a b, of sample_env sample_index] by simp
qed

section \<open>Properties of the constructor\<close>

lemma Track_new_three: "Track_new [a, b, c] = Inl TypeError"
  by (cases a; cases b; simp)

lemma build_tracks:
  "mapE (\<lambda>(k, v). case Track_new [PyStr mid, PyStr k, py_of_home home] of
                      Inl x \<Rightarrow> Inl x
                    | Inr t \<Rightarrow> Inr (k, t)) its
   = (if its = [] then Inr [] else Inl TypeError)"
  by (cases its) (auto simp: Track_new_three)

lemma sort_key_Nil: "(sort_key f xs = []) = (xs = [])"
  using length_sort [of f xs] by (cases xs) auto

text \<open>
  The constructor in closed form: it returns only for a piece whose dict of tracks is
  empty, since every call of \<^verbatim>\<open>Track\<close> it makes raises \<^verbatim>\<open>TypeError\<close>.
\<close>

lemma MultiTrack_init_cases:
  "MultiTrack_init index mid home =
     (case map_of index mid of
        None \<Rightarrow> Inl ValueError
      | Some entry \<Rightarrow>
          (case map_of entry ''tracks'' of
             None \<Rightarrow> Inl KeyError
           | Some (Files l) \<Rightarrow> Inl AttributeError
           | Some (Table its) \<Rightarrow>
               if its = [] then
                 Inr \<lparr>mtrack_id = mid, data_home = home, mtrack_ids = [], tracks = [],
                      instruments = parse_instruments entry,
                      sections = corresponding_sections (parse_instruments entry)\<rparr>
               else Inl TypeError))"
  unfolding MultiTrack_init_def build_tracks dict_get_def
  by (simp add: sort_key_Nil split: option.split index_value.split)

lemma construction_fails:
  assumes "map_of index mid = Some entry" and "map_of entry ''tracks'' = Some (Table its)"
    and "its \<noteq> []"
  shows "MultiTrack_init index mid home = Inl TypeError"
  using assms by (simp add: MultiTrack_init_cases)

text \<open>
  A track that \<^verbatim>\<open>Track.__init__\<close> returns has as many voices as audio paths.
\<close>

lemma Track_init_voices:
  assumes "Track_init tid home index = Inr t"
  shows "n_voices t = length (audio_paths t) \<and> track_id t = tid"
  using assms by (auto simp: Track_init_def split: sum.splits)

text \<open>
  C8: for a piece id that is no key of the index the constructor fails with
  \<^verbatim>\<open>ValueError\<close>, its first statement; for a piece id that is a key of the index it
  never fails with \<^verbatim>\<open>ValueError\<close>.
\<close>

theorem invalid_id_error:
  "(mid \<notin> fst ` set index \<longrightarrow> MultiTrack_init index mid home = Inl ValueError)
 \<and> (mid \<in> fst ` set index \<longrightarrow> MultiTrack_init index mid home \<noteq> Inl ValueError)"
proof (cases "map_of index mid")
  case None
  then have "mid \<notin> fst ` set index"
    by (simp add: map_of_eq_None_iff)
  with None show ?thesis
    by (simp add: MultiTrack_init_cases)
next
  case (Some entry)
  then have "mid \<in> fst ` set index"
    by (metis map_of_eq_None_iff option.distinct(1))
  with Some show ?thesis
    by (simp add: MultiTrack_init_cases split: option.split index_value.split)
qed

theorem invalid_id_error_witness:
  "''q'' \<notin> fst ` set sample_index \<and> MultiTrack_init sample_index ''q'' None = Inl ValueError
 \<and> ''p'' \<in> fst ` set sample_index \<and> MultiTrack_init sample_index ''p'' None \<noteq> Inl ValueError"
  using invalid_id_error [of "''q''" sample_index None]
        invalid_id_error [of "''p''" sample_index None]
  by (simp add: sample_index_def)

text \<open>
  C5: on the sample piece, whose dict of tracks lists three sub-tracks, construction
  does not build a \<^verbatim>\<open>Track\<close> per sub-track: the first call
  \<^verbatim>\<open>Track(self.mtrack_id, k, self._data_home)\<close> passes three arguments to a constructor
  that requires five, and the constructor of the piece ends in \<^verbatim>\<open>TypeError\<close>.
\<close>

theorem construction_fails_on_sample:
  "MultiTrack_init sample_index ''p'' (Some ''d'') = Inl TypeError"
  by (simp add: MultiTrack_init_cases sample_index_def sample_entry_def)

subsection \<open>Instruments and sections\<close>

lemma startswith_append: "startswith s p \<Longrightarrow> s = p @ drop (length p) s"
  by (induction s p rule: startswith.induct) auto

lemma startswith_self: "startswith (p @ r) p"
  by (induction p) auto

lemma str_remove_absent: "\<not> str_in old s \<Longrightarrow> str_remove old s = s"
  by (induction old s rule: str_remove.induct) auto

lemma str_remove_prefix:
  assumes "old \<noteq> []" and "\<not> str_in old r"
  shows "str_remove old (old @ r) = r"
proof -
  from assms(1) obtain c cs where old: "old = c # cs" by (cases old) auto
  have "str_remove old (c # (cs @ r)) = str_remove old (drop (length old) (c # (cs @ r)))"
    using startswith_self [of old r] assms(1) old by (simp del: startswith.simps)
  also have "drop (length old) (c # (cs @ r)) = r" using old by simp
  finally show ?thesis using old assms(2) by (simp add: str_remove_absent)
qed

lemma parse_instruments_distinct:
  assumes "distinct (map fst entry)" and "list_all score_key_ok (map fst entry)"
  shows "distinct (parse_instruments entry)"
proof -
  let ?ks = "filter (str_in ''score-'') (map fst entry)"
  have whole: "k = ''score-'' @ str_remove ''score-'' k" if k: "k \<in> set ?ks" for k
  proof -
    from k assms(2) have p: "startswith k ''score-''"
      and a: "\<not> str_in ''score-'' (drop (length ''score-'') k)"
      by (auto simp: list_all_iff score_key_ok_def)
    from startswith_append [OF p] have e: "k = ''score-'' @ drop (length ''score-'') k" .
    have "str_remove ''score-'' (''score-'' @ drop (length ''score-'') k)
            = drop (length ''score-'') k"
      by (rule str_remove_prefix [OF _ a]) simp
    with e show ?thesis by metis
  qed
  have "inj_on (str_remove ''score-'') (set ?ks)"
  proof (rule inj_onI)
    fix x y
    assume "x \<in> set ?ks" and "y \<in> set ?ks"
      and "str_remove ''score-'' x = str_remove ''score-'' y"
    with whole [of x] whole [of y] show "x = y" by metis
  qed
  moreover have "distinct ?ks" using assms(1) by simp
  ultimately have "distinct (map (str_remove ''score-'') ?ks)"
    by (simp add: distinct_map)
  then show ?thesis by (simp add: parse_instruments_def)
qed

lemma sections_keys_distinct: "distinct (map fst DATASET_SECTIONS)"
  by (simp add: DATASET_SECTIONS_def)

lemma corresponding_sections_image:
  assumes "s \<in> set (corresponding_sections instrs)"
  shows "\<exists>i \<in> set instrs. map_of DATASET_SECTIONS i = Some s"
proof -
  from assms obtain i where "(i, s) \<in> set DATASET_SECTIONS" and "i \<in> set instrs"
    by (auto simp: corresponding_sections_def)
  then show ?thesis
    using map_of_is_SomeI [OF sections_keys_distinct] by blast
qed

text \<open>
  C7, as the code has it. For a piece \<open>P\<close> of the index with dict \<open>entry\<close>, the list the
  constructor computes for \<^verbatim>\<open>instruments\<close> is sorted; it is free of duplicates when
  the keys of \<open>entry\<close> are distinct and its score keys have the shape \<^verbatim>\<open>score-<name>\<close>
  with no further \<^verbatim>\<open>score-\<close> in the name. The list it computes for \<^verbatim>\<open>sections\<close> is
  sorted and free of duplicates, and each of its elements is the section that
  \<^verbatim>\<open>DATASET_SECTIONS\<close> gives one of the instruments. Whenever the constructor returns,
  these two lists are the fields of the object.
\<close>

theorem instruments_and_sections:
  assumes "map_of index P = Some entry"
  shows "sorted (parse_instruments entry)
       \<and> (distinct (map fst entry) \<and> list_all score_key_ok (map fst entry)
            \<longrightarrow> distinct (parse_instruments entry))
       \<and> sorted (corresponding_sections (parse_instruments entry))
       \<and> distinct (corresponding_sections (parse_instruments entry))
       \<and> (\<forall>s \<in> set (corresponding_sections (parse_instruments entry)).
             \<exists>i \<in> set (parse_instruments entry). map_of DATASET_SECTIONS i = Some s)
       \<and> (\<forall>mt. MultiTrack_init index P home = Inr mt \<longrightarrow>
             instruments mt = parse_instruments entry
           \<and> sections mt = corresponding_sections (parse_instruments entry))"
proof -
  have "sorted (parse_instruments entry)" by (simp add: parse_instruments_def)
  moreover have "sorted (corresponding_sections (parse_instruments entry))"
    and "distinct (corresponding_sections (parse_instruments entry))"
    by (simp_all add: corresponding_sections_def)
  moreover have "\<forall>mt. MultiTrack_init index P home = Inr mt \<longrightarrow>
             instruments mt = parse_instruments entry
           \<and> sections mt = corresponding_sections (parse_instruments entry)"
    using assms
    by (auto simp: MultiTrack_init_cases split: option.splits index_value.splits if_splits)
  ultimately show ?thesis
    using parse_instruments_distinct corresponding_sections_image by blast
qed

theorem instruments_and_sections_witness:
  "map_of bare_index ''q'' = Some bare_entry
 \<and> distinct (map fst bare_entry) \<and> list_all score_key_ok (map fst bare_entry)
 \<and> MultiTrack_init bare_index ''q'' None =
     Inr \<lparr>mtrack_id = ''q'', data_home = None, mtrack_ids = [], tracks = [],
          instruments = [''cello'', ''horn'', ''violin''],
          sections = [''brass'', ''strings'']\<rparr>
 \<and> sorted (parse_instruments bare_entry) \<and> distinct (parse_instruments bare_entry)
 \<and> sorted (corresponding_sections (parse_instruments bare_entry))
 \<and> distinct (corresponding_sections (parse_instruments bare_entry))
 \<and> map_of DATASET_SECTIONS ''horn'' = Some ''brass''
 \<and> map_of DATASET_SECTIONS ''cello'' = Some ''strings''"
proof -
  have a: "map_of bare_index ''q'' = Some bare_entry" by (simp add: bare_index_def)
  have b: "distinct (map fst bare_entry)" by (simp add: bare_entry_def)
  have c: "list_all score_key_ok (map fst bare_entry)"
    by (simp add: bare_entry_def score_key_ok_def)
  have d: "parse_instruments bare_entry = [''cello'', ''horn'', ''violin'']"
    by (simp add: bare_entry_def parse_instruments_def)
  have e: "corresponding_sections [''cello'', ''horn'', ''violin''] = [''brass'', ''strings'']"
    by (simp add: corresponding_sections_def DATASET_SECTIONS_def)
  have t: "map_of bare_entry ''tracks'' = Some (Table [])" by (simp add: bare_entry_def)
  have f: "MultiTrack_init bare_index ''q'' None =
     Inr \<lparr>mtrack_id = ''q'', data_home = None, mtrack_ids = [], tracks = [],
          instruments = [''cello'', ''horn'', ''violin''],
          sections = [''brass'', ''strings'']\<rparr>"
    by (simp add: MultiTrack_init_cases a t d e)
  have g: "map_of DATASET_SECTIONS ''horn'' = Some ''brass''"
    "map_of DATASET_SECTIONS ''cello'' = Some ''strings''"
    by (simp_all add: DATASET_SECTIONS_def)
  from instruments_and_sections [OF a, of None] a b c f g show ?thesis
    by blast
qed

text \<open>
  C7 as stated fails: on a piece with the score keys \<^verbatim>\<open>score-a\<close> and
  \<^verbatim>\<open>score-score-a\<close> the constructor returns, and its \<^verbatim>\<open>instruments\<close> holds \<^verbatim>\<open>a\<close>
  twice.
\<close>

theorem instruments_duplicate_counterexample:
  "''p'' \<in> fst ` set dup_index
 \<and> MultiTrack_init dup_index ''p'' None =
     Inr \<lparr>mtrack_id = ''p'', data_home = None, mtrack_ids = [], tracks = [],
          instruments = [''a'', ''a''], sections = []\<rparr>
 \<and> \<not> distinct [''a'', ''a'' :: string]"
  by (simp add: MultiTrack_init_cases dup_index_def parse_instruments_def
      corresponding_sections_def DATASET_SECTIONS_def)

section \<open>Properties of \<^verbatim>\<open>load_audio\<close> and \<^verbatim>\<open>Track.audio\<close>\<close>

text \<open>
  \<^verbatim>\<open>load_audio\<close> in closed form: a missing file is refused when the decorator opens
  it, and on a file that exists the body raises \<^verbatim>\<open>NameError\<close>. No call returns.
\<close>

lemma load_audio_cases:
  "load_audio e p =
     (if p = [] then Inl NotModelled
      else if \<not> path_exists e p then Inl IOError
      else Inl NameError)"
  by (simp add: load_audio_def coerce_to_bytes_io_def load_audio_undecorated_def)




lemma audio_NameError:
  assumes "audio_paths t = p # ps" and "p \<noteq> []" and "path_exists e p"
  shows "audio e t = Inl NameError"
  using assms by (simp add: audio_def audio_with_def list_get_def load_audio_cases)

text \<open>With its path bound, the body does what its \<^verbatim>\<open>raise\<close> says.\<close>

lemma load_audio_body_missing:
  "\<not> path_exists e p \<Longrightarrow> load_audio_body e p = Inl IOError"
  by (simp add: load_audio_body_def)

text \<open>
  C4: the violin of the sample has two voices, whose files exist and decode to two
  samples each at one rate; its \<^verbatim>\<open>audio\<close> raises \<^verbatim>\<open>NameError\<close> instead of returning
  their sum.
\<close>

theorem audio_fails_on_sample:
  "path_exists voices_env ''d/v1.wav'' \<and> path_exists voices_env ''d/v2.wav''
 \<and> librosa_load voices_env ''d/v1.wav'' = ([1, 2], 44100)
 \<and> librosa_load voices_env ''d/v2.wav'' = ([3, 4], 44100)
 \<and> audio voices_env violin_track = Inl NameError"
proof -
  have "audio voices_env violin_track = Inl NameError"
    by (rule audio_NameError [of _ "''d/v1.wav''" "[''d/v2.wav'']"])
       (simp_all add: violin_track_def voices_env_def)
  then show ?thesis by (simp add: voices_env_def)
qed

subsection \<open>The loop of \<^verbatim>\<open>Track.audio\<close>, on a loader that returns\<close>

lemma np_iadd_same: "length b = length a \<Longrightarrow> np_iadd a b = Inr (map2 (+) a b)"
  by (simp add: np_iadd_def)

lemma add_voices_foldl:
  assumes "\<forall>i \<in> set js. i < length paths
              \<and> load (paths ! i) = Inr (buf (paths ! i), rate (paths ! i))
              \<and> length (buf (paths ! i)) = length acc"
  shows "add_voices load paths js acc
           = Inr (foldl (map2 (+)) acc (map (\<lambda>i. buf (paths ! i)) js))"
  using assms
proof (induction js arbitrary: acc)
  case Nil
  then show ?case by simp
next
  case (Cons i js)
  then have i: "i < length paths" "load (paths ! i) = Inr (buf (paths ! i), rate (paths ! i))"
    "length (buf (paths ! i)) = length acc" by auto
  have "\<forall>j \<in> set js. j < length paths
              \<and> load (paths ! j) = Inr (buf (paths ! j), rate (paths ! j))
              \<and> length (buf (paths ! j)) = length (map2 (+) acc (buf (paths ! i)))"
    using Cons.prems i by simp
  from Cons.IH [OF this] i show ?case
    by (simp add: list_get_def np_iadd_same)
qed

lemma map_nth_from_one: "map (\<lambda>i. f (xs ! i)) [1..<length xs] = map f (tl xs)"
proof (cases xs)
  case Nil
  then show ?thesis by simp
next
  case (Cons x ys)
  have "[1..<length xs] = map Suc [0..<length ys]"
    using Cons by (simp add: map_Suc_upt)
  then have "map (\<lambda>i. f (xs ! i)) [1..<length xs] = map (\<lambda>i. f (ys ! i)) [0..<length ys]"
    using Cons by simp
  also have "\<dots> = map f (map (\<lambda>i. ys ! i) [0..<length ys])" by simp
  also have "\<dots> = map f ys" by (simp only: map_nth)
  finally show ?thesis using Cons by simp
qed

lemma foldl_map2_length:
  "\<forall>b \<in> set bs. length b = length acc \<Longrightarrow> length (foldl (map2 (+)) acc bs) = length acc"
  by (induction bs arbitrary: acc) simp_all

lemma foldl_map2_nth:
  fixes acc :: "real list"
  assumes "\<forall>b \<in> set bs. length b = length acc" and "j < length acc"
  shows "foldl (map2 (+)) acc bs ! j = acc ! j + (\<Sum>b\<leftarrow>bs. b ! j)"
  using assms
proof (induction bs arbitrary: acc)
  case Nil
  then show ?case by simp
next
  case (Cons b bs)
  then have l: "length b = length acc" by simp
  have "\<forall>c \<in> set bs. length c = length (map2 (+) acc b)" using Cons.prems l by simp
  moreover have "j < length (map2 (+) acc b)" using Cons.prems l by simp
  ultimately have "foldl (map2 (+)) (map2 (+) acc b) bs ! j
      = map2 (+) acc b ! j + (\<Sum>c\<leftarrow>bs. c ! j)"
    by (rule Cons.IH)
  then show ?case using Cons.prems l by simp
qed

text \<open>
  For a track with at least one voice and any loader that returns, for every voice, a
  buffer of \<open>n\<close> samples, the loop of \<^verbatim>\<open>Track.audio\<close> returns the sample-for-sample sum
  of the voices' buffers with the rate of the first voice: the loop is right, and the
  property fails only through \<^verbatim>\<open>load_audio\<close>.
\<close>

lemma audio_with_sums_voices:
  assumes inv: "n_voices t = length (audio_paths t)" and ne: "audio_paths t \<noteq> []"
    and ld: "\<forall>p \<in> set (audio_paths t). load p = Inr (buf p, rate p) \<and> length (buf p) = n"
  shows "\<exists>m. audio_with load t = Inr (m, rate (hd (audio_paths t)))
           \<and> length m = n
           \<and> (\<forall>j < n. m ! j = (\<Sum>p\<leftarrow>audio_paths t. buf p ! j))"
proof -
  from ne obtain p0 ps where ps: "audio_paths t = p0 # ps" by (cases "audio_paths t") auto
  let ?paths = "audio_paths t"
  let ?m = "foldl (map2 (+)) (buf p0) (map buf ps)"
  have p0: "load p0 = Inr (buf p0, rate p0)" "length (buf p0) = n" using ld ps by auto
  have ix: "\<forall>i \<in> set [1..<length ?paths]. i < length ?paths
          \<and> load (?paths ! i) = Inr (buf (?paths ! i), rate (?paths ! i))
          \<and> length (buf (?paths ! i)) = length (buf p0)"
  proof
    fix i assume "i \<in> set [1..<length ?paths]"
    then have i: "i < length ?paths" by simp
    then have "?paths ! i \<in> set ?paths" by (rule nth_mem)
    with ld p0 i show "i < length ?paths
          \<and> load (?paths ! i) = Inr (buf (?paths ! i), rate (?paths ! i))
          \<and> length (buf (?paths ! i)) = length (buf p0)" by simp
  qed
  have "add_voices load ?paths [1..<length ?paths] (buf p0)
          = Inr (foldl (map2 (+)) (buf p0) (map (\<lambda>i. buf (?paths ! i)) [1..<length ?paths]))"
    by (rule add_voices_foldl [OF ix])
  also have "map (\<lambda>i. buf (?paths ! i)) [1..<length ?paths] = map buf (tl ?paths)"
    by (rule map_nth_from_one)
  finally have av: "add_voices load ?paths [1..<length ?paths] (buf p0) = Inr ?m"
    using ps by simp
  have run: "audio_with load t = Inr (?m, rate p0)"
    unfolding audio_with_def inv using av p0(1) ps by (simp add: list_get_def)
  have all: "\<forall>b \<in> set (map buf ps). length b = length (buf p0)" using ld ps p0 by auto
  have len: "length ?m = n" using foldl_map2_length [OF all] p0 by simp
  have "\<forall>j < n. ?m ! j = (\<Sum>p\<leftarrow>audio_paths t. buf p ! j)"
  proof (intro allI impI)
    fix j assume "j < n"
    then have "j < length (buf p0)" using p0 by simp
    from foldl_map2_nth [OF all this] show "?m ! j = (\<Sum>p\<leftarrow>audio_paths t. buf p ! j)"
      using ps by (simp add: o_def)
  qed
  with run len ps show ?thesis by simp
qed

lemma violin_signal:
  "audio_with (load_audio_body voices_env) violin_track = Inr ([4, 6], 44100)"
  by (simp add: audio_with_def list_get_def load_audio_body_def voices_env_def
      violin_track_def np_iadd_def upt_rec)

lemma oboe_signal:
  "audio_with (load_audio_body voices_env) oboe_track = Inr ([6], 44100)"
  by (simp add: audio_with_def list_get_def load_audio_body_def voices_env_def
      oboe_track_def np_iadd_def upt_rec)

section \<open>Properties of \<^verbatim>\<open>audio_mix\<close>\<close>







lemma mix_mt_ids:
  "get_trackids mix_mt (Lst (instruments mix_mt)) = Inr [''p-oboe'', ''p-violin'']"
  by (simp add: get_trackids_def mix_mt_def re_search_ignorecase_def plain_def ascii_def
      metachars_def lower_def)




subsection \<open>The mix on a loader that returns\<close>

text \<open>
  The flag \<^verbatim>\<open>audio_mix\<close> passes is \<^verbatim>\<open>enforce_length=False\<close>. It shows only on an object
  that the constructor does not build, read through a loader that the module does not
  have: with the tracks of \<open>mix_mt\<close> read by the loop of \<^verbatim>\<open>Track.audio\<close> on the body of
  \<^verbatim>\<open>load_audio\<close>, its path bound, the oboe decodes to one sample and the violin to
  two, the length-enforced call raises the length-mismatch error, and the mix as
  \<^verbatim>\<open>audio_mix\<close> asks for it pads the oboe with a zero.
\<close>

lemma padded_mix_on_returning_loader:
  "get_audio_mix_instruments (audio_with (load_audio_body voices_env)) mix_mt
     (Lst (instruments mix_mt)) None True True = Inl LengthMismatch
 \<and> audio_mix (audio_with (load_audio_body voices_env)) mix_mt = Inr [5, 3]"
  by (simp add: audio_mix_def get_audio_mix_instruments_def mix_mt_ids get_target_def)
     (simp add: mix_mt_def dict_get_def violin_signal oboe_signal same_length_def
        mix_signals_def longest_def pad_to_def)

section \<open>Properties of \<^verbatim>\<open>get_score_mix_instruments\<close>\<close>

lemmas re_defs = re_search_ignorecase_def plain_def ascii_def metachars_def lower_def

lemmas file_defs = load_score_file_def os_path_join_def loadtxt_def readlines_def
  data_part_def str_strip_def parse_row_def columns_def read_notes_def list_get_def

lemmas merge_defs = np_concatenate_def argsort_def take_along_axis_def

subsection \<open>A missing score file\<close>

text \<open>
  When a matched score path is absent from the disk and the files matched before it
  load, \<^verbatim>\<open>get_score_mix_instruments\<close> raises \<^verbatim>\<open>IOError\<close>.
\<close>

lemma mapE_first_error:
  "mapE f ps = Inr ys \<Longrightarrow> f p = Inl x \<Longrightarrow> mapE f (ps @ p # qs) = Inl x"
  by (induction ps arbitrary: ys) (auto split: sum.splits)

lemma missing_score_file_IOError:
  assumes "list_all (\<lambda>elem. elem \<in> set (instruments mt)) (as_list arg)"
    and "dict_get index (mtrack_id mt) = Inr entry"
    and "match_paths (str_join ''|'' (as_list arg)) entry = Inr (ps @ p # qs)"
    and "mapE (load_score_file e (data_home mt)) ps = Inr loaded"
    and "os_path_join (data_home mt) p = Inr full_path"
    and "\<not> path_exists e full_path"
  shows "get_score_mix_instruments e index mt arg = Inl IOError"
proof -
  have "load_score_file e (data_home mt) p = Inl IOError"
    using assms(5,6) by (simp add: load_score_file_def)
  from mapE_first_error [OF assms(4) this]
  have "mapE (load_score_file e (data_home mt)) (ps @ p # qs) = Inl IOError" .
  with assms(1,2,3) show ?thesis
    by (simp add: get_score_mix_instruments_def)
qed


lemma lost_paths: "match_paths ''bassoon'' bass_entry = Inr [''s/bassoon.txt'']"
  by (simp add: re_defs bass_entry_def)

text \<open>
  C9: a file that is absent from the disk surfaces as \<^verbatim>\<open>IOError\<close> where it is read.
  \<^verbatim>\<open>load_audio\<close> on a path with no file raises it; so does
  \<^verbatim>\<open>get_score_mix_instruments\<close> when a score path the request matches resolves to no
  file and the files matched before it load; and the constructor, which reads no
  file, never raises it.
\<close>

theorem missing_file_IOError:
  "(p \<noteq> [] \<and> \<not> path_exists e p \<longrightarrow> load_audio e p = Inl IOError)
 \<and> (list_all (\<lambda>elem. elem \<in> set (instruments mt)) (as_list arg)
      \<and> dict_get index (mtrack_id mt) = Inr entry
      \<and> match_paths (str_join ''|'' (as_list arg)) entry = Inr (ps @ q # qs)
      \<and> mapE (load_score_file e (data_home mt)) ps = Inr loaded
      \<and> os_path_join (data_home mt) q = Inr full_path
      \<and> \<not> path_exists e full_path
      \<longrightarrow> get_score_mix_instruments e index mt arg = Inl IOError)
 \<and> MultiTrack_init index mid home \<noteq> Inl IOError"
proof -
  have "MultiTrack_init index mid home \<noteq> Inl IOError"
    by (simp add: MultiTrack_init_cases split: option.split index_value.split)
  then show ?thesis
    using missing_score_file_IOError [of mt arg index entry ps q qs e loaded full_path]
    by (simp add: load_audio_cases)
qed

theorem missing_file_IOError_witness:
  "\<not> path_exists lost_env ''d/a.wav'' \<and> load_audio lost_env ''d/a.wav'' = Inl IOError
 \<and> MultiTrack_init bass_index ''p'' (Some ''d'') = Inr bass_mt
 \<and> match_paths ''bassoon'' bass_entry = Inr [''s/bassoon.txt'']
 \<and> \<not> path_exists lost_env ''d/s/bassoon.txt''
 \<and> get_score_mix_instruments lost_env bass_index bass_mt (Lst [''bassoon'']) = Inl IOError"
proof -
  have a: "\<not> path_exists lost_env ''d/a.wav''" "\<not> path_exists lost_env ''d/s/bassoon.txt''"
    by (simp_all add: lost_env_def)
  have b: "list_all (\<lambda>elem. elem \<in> set (instruments bass_mt)) (as_list (Lst [''bassoon'']))"
    by (simp add: bass_mt_def)
  have c: "dict_get bass_index (mtrack_id bass_mt) = Inr bass_entry"
    by (simp add: dict_get_def bass_index_def bass_mt_def)
  have d: "match_paths (str_join ''|'' (as_list (Lst [''bassoon'']))) bass_entry
      = Inr ([] @ ''s/bassoon.txt'' # [])"
    by (simp add: lost_paths)
  have f: "mapE (load_score_file lost_env (data_home bass_mt)) [] = Inr []" by simp
  have g: "os_path_join (data_home bass_mt) ''s/bassoon.txt'' = Inr ''d/s/bassoon.txt''"
    by (simp add: os_path_join_def bass_mt_def)
  have h: "MultiTrack_init bass_index ''p'' (Some ''d'') = Inr bass_mt"
    by (simp add: MultiTrack_init_cases bass_index_def bass_entry_def bass_mt_def
        parse_instruments_def corresponding_sections_def DATASET_SECTIONS_def)
  from missing_file_IOError [of "''d/a.wav''" lost_env bass_mt "Lst [''bassoon'']" bass_index
      bass_entry "[]" "''s/bassoon.txt''" "[]" "[]" "''d/s/bassoon.txt''"]
    a b c d f g h lost_paths
  show ?thesis by simp
qed

subsection \<open>A score file of one row\<close>

lemma solo_paths: "match_paths ''flute'' solo_entry = Inr [''s/flute.txt'']"
  by (simp add: re_defs solo_entry_def)

lemma solo_file: "load_score_file solo_env (Some ''d'') ''s/flute.txt'' = Inl IndexError"
  by (simp add: file_defs solo_env_def)

text \<open>
  C2: the flute's score file of the sample piece exists and holds one row,
  \<^verbatim>\<open>0.0,1.0,C4\<close>; \<^verbatim>\<open>get_score_mix_instruments(['flute'])\<close> does not return that one
  event but raises \<^verbatim>\<open>IndexError\<close>, at \<^verbatim>\<open>times[:, 0]\<close>.
\<close>

theorem single_row_score_fails:
  "MultiTrack_init solo_index ''p'' (Some ''d'') = Inr solo_mt
 \<and> path_exists solo_env ''d/s/flute.txt''
 \<and> get_score_mix_instruments solo_env solo_index solo_mt (Lst [''flute'']) = Inl IndexError"
proof -
  have "MultiTrack_init solo_index ''p'' (Some ''d'') = Inr solo_mt"
    by (simp add: MultiTrack_init_cases solo_index_def solo_entry_def solo_mt_def
        parse_instruments_def corresponding_sections_def DATASET_SECTIONS_def)
  moreover have "path_exists solo_env ''d/s/flute.txt''" by (simp add: solo_env_def)
  moreover have "get_score_mix_instruments solo_env solo_index solo_mt (Lst [''flute''])
      = Inl IndexError"
    by (simp add: get_score_mix_instruments_def solo_mt_def solo_index_def dict_get_def
        solo_paths solo_file)
  ultimately show ?thesis by simp
qed

subsection \<open>The merge, when every matched file loads\<close>

lemma mapE_results:
  "mapE f xs = Inr ys \<Longrightarrow> \<forall>y \<in> set ys. \<exists>x \<in> set xs. f x = Inr y"
  by (induction xs arbitrary: ys) (auto split: sum.splits)

lemma mapE_length: "mapE f xs = Inr ys \<Longrightarrow> length ys = length xs"
  by (induction xs arbitrary: ys) (auto split: sum.splits)

lemma load_score_file_columns:
  assumes "load_score_file e home p = Inr (st, en, sc)"
  shows "length en = length st \<and> 2 \<le> length st"
  using assms
  by (auto simp: load_score_file_def columns_def split: sum.splits if_splits)

lemma argsort_sorted: "sorted (map (\<lambda>i. xs ! i) (argsort xs))"
proof -
  let ?ps = "sort_key fst (zip xs [0..<length xs])"
  have "\<forall>q \<in> set (zip xs [0..<length xs]). xs ! snd q = fst q"
    by (auto simp: set_zip)
  then have q: "\<And>q. q \<in> set ?ps \<Longrightarrow> xs ! snd q = fst q" by simp
  have "map (\<lambda>i. xs ! i) (argsort xs) = map (\<lambda>q. xs ! snd q) ?ps"
    by (simp add: argsort_def o_def)
  also have "\<dots> = map fst ?ps"
    by (rule map_cong) (simp_all add: q)
  finally have "map (\<lambda>i. xs ! i) (argsort xs) = map fst ?ps" .
  then show ?thesis by (simp only: sorted_sort_key)
qed

lemma argsort_mset: "mset (argsort xs) = mset [0..<length xs]"
proof -
  have "mset (argsort xs) = mset (map snd (zip xs [0..<length xs]))"
    unfolding argsort_def by (simp only: mset_map mset_sort)
  also have "map snd (zip xs [0..<length xs]) = [0..<length xs]" by simp
  finally show ?thesis .
qed

lemma argsort_range: "i \<in> set (argsort xs) \<Longrightarrow> i < length xs"
proof -
  assume "i \<in> set (argsort xs)"
  then have "i \<in># mset (argsort xs)" by simp
  then have "i \<in># mset [0..<length xs]" by (simp only: argsort_mset)
  then show ?thesis by simp
qed

lemma take_along_argsort:
  "length a = length xs \<Longrightarrow> take_along_axis a (argsort xs) = Inr (map (\<lambda>i. a ! i) (argsort xs))"
  by (simp add: take_along_axis_def list_all_iff argsort_range)

lemma zip_map3:
  "zip (map f js) (zip (map g js) (map h js)) = map (\<lambda>i. (f i, g i, h i)) js"
  by (induction js) simp_all

lemma permuted_rows:
  assumes "length en = length st" and "length sc = length st"
  shows "mset (zip (map (\<lambda>i. st ! i) (argsort st))
               (zip (map (\<lambda>i. en ! i) (argsort st)) (map (\<lambda>i. sc ! i) (argsort st))))
         = mset (zip st (zip en sc))"
proof -
  let ?row = "\<lambda>i. (st ! i, en ! i, sc ! i)"
  have "zip (map (\<lambda>i. st ! i) (argsort st))
          (zip (map (\<lambda>i. en ! i) (argsort st)) (map (\<lambda>i. sc ! i) (argsort st)))
        = map ?row (argsort st)"
    by (rule zip_map3)
  then have "mset (zip (map (\<lambda>i. st ! i) (argsort st))
          (zip (map (\<lambda>i. en ! i) (argsort st)) (map (\<lambda>i. sc ! i) (argsort st))))
        = image_mset ?row (mset (argsort st))" by simp
  also have "\<dots> = image_mset ?row (mset [0..<length st])" by (simp only: argsort_mset)
  also have "\<dots> = mset (map ?row [0..<length st])" by simp
  also have "map ?row [0..<length st] = zip st (zip en sc)"
    using assms by (intro nth_equalityI) simp_all
  finally show ?thesis .
qed

lemma concat_rows:
  assumes "\<forall>l \<in> set loaded. length (fst (snd l)) = length (fst l)
                          \<and> length (snd (snd l)) = length (fst l)"
  shows "zip (concat (map fst loaded))
           (zip (concat (map (\<lambda>l. fst (snd l)) loaded)) (concat (map (\<lambda>l. snd (snd l)) loaded)))
         = concat (map (\<lambda>l. zip (fst l) (zip (fst (snd l)) (snd (snd l)))) loaded)
       \<and> length (concat (map (\<lambda>l. fst (snd l)) loaded)) = length (concat (map fst loaded))
       \<and> length (concat (map (\<lambda>l. snd (snd l)) loaded)) = length (concat (map fst loaded))"
  using assms
proof (induction loaded)
  case Nil
  then show ?case by simp
next
  case (Cons l ls)
  then have ih: "zip (concat (map fst ls))
           (zip (concat (map (\<lambda>l. fst (snd l)) ls)) (concat (map (\<lambda>l. snd (snd l)) ls)))
         = concat (map (\<lambda>l. zip (fst l) (zip (fst (snd l)) (snd (snd l)))) ls)"
    and le: "length (concat (map (\<lambda>l. fst (snd l)) ls)) = length (concat (map fst ls))"
    and ls: "length (concat (map (\<lambda>l. snd (snd l)) ls)) = length (concat (map fst ls))"
    by simp_all
  from Cons.prems have l: "length (fst (snd l)) = length (fst l)"
    "length (snd (snd l)) = length (fst l)" by simp_all
  show ?case using ih le ls l by (simp add: zip_append)
qed

text \<open>
  When at least one score path is matched, every matched file loads (which takes two
  rows or more in each) and has as many lines as rows, the result holds the rows of
  all the matched files, each once, in ascending order of their start times, and as
  many events as the files have rows together.
\<close>

lemma merged_score:
  assumes req: "list_all (\<lambda>elem. elem \<in> set (instruments mt)) (as_list arg)"
    and ent: "dict_get index (mtrack_id mt) = Inr entry"
    and mp: "match_paths (str_join ''|'' (as_list arg)) entry = Inr paths"
    and some: "paths \<noteq> []"
    and ld: "mapE (load_score_file e (data_home mt)) paths = Inr loaded"
    and lines: "\<forall>l \<in> set loaded. length (snd (snd l)) = length (fst l)"
  shows "\<exists>ev. get_score_mix_instruments e index mt arg = Inr ev
           \<and> sorted (start_times ev)
           \<and> mset (zip (start_times ev) (zip (end_times ev) (event ev)))
               = mset (concat (map (\<lambda>l. zip (fst l) (zip (fst (snd l)) (snd (snd l)))) loaded))
           \<and> length (start_times ev) = (\<Sum>l\<leftarrow>loaded. length (fst l))
           \<and> length (end_times ev) = length (start_times ev)
           \<and> length (event ev) = length (start_times ev)"
proof -
  let ?st = "concat (map fst loaded)"
  let ?en = "concat (map (\<lambda>l. fst (snd l)) loaded)"
  let ?sc = "concat (map (\<lambda>l. snd (snd l)) loaded)"
  let ?ind = "argsort ?st"
  let ?ev = "\<lparr>start_times = map (\<lambda>i. ?st ! i) ?ind, end_times = map (\<lambda>i. ?en ! i) ?ind,
              event = map (\<lambda>i. ?sc ! i) ?ind\<rparr>"
  have cols: "\<forall>l \<in> set loaded. length (fst (snd l)) = length (fst l)"
  proof
    fix l assume "l \<in> set loaded"
    with mapE_results [OF ld] obtain p where "load_score_file e (data_home mt) p = Inr l"
      by blast
    then have "load_score_file e (data_home mt) p = Inr (fst l, fst (snd l), snd (snd l))"
      by simp
    from load_score_file_columns [OF this] show "length (fst (snd l)) = length (fst l)"
      by simp
  qed
  with lines have "\<forall>l \<in> set loaded. length (fst (snd l)) = length (fst l)
                          \<and> length (snd (snd l)) = length (fst l)" by simp
  from concat_rows [OF this]
  have rows: "zip ?st (zip ?en ?sc)
         = concat (map (\<lambda>l. zip (fst l) (zip (fst (snd l)) (snd (snd l)))) loaded)"
    and len_en: "length ?en = length ?st" and len_sc: "length ?sc = length ?st"
    by simp_all
  have ne: "loaded \<noteq> []" using mapE_length [OF ld] some by auto
  have run: "get_score_mix_instruments e index mt arg = Inr ?ev"
    using req ent mp ld ne
    by (simp add: get_score_mix_instruments_def np_concatenate_def
        take_along_argsort [OF refl] take_along_argsort [OF len_en]
        take_along_argsort [OF len_sc])
  have "sorted (start_times ?ev)" by (simp add: argsort_sorted)
  moreover have "mset (zip (start_times ?ev) (zip (end_times ?ev) (event ?ev)))
      = mset (concat (map (\<lambda>l. zip (fst l) (zip (fst (snd l)) (snd (snd l)))) loaded))"
    using permuted_rows [OF len_en len_sc] rows by simp
  moreover have "length (start_times ?ev) = (\<Sum>l\<leftarrow>loaded. length (fst l))"
  proof -
    have "length ?ind = length ?st"
      using argsort_mset [of ?st] by (metis size_mset length_upt diff_zero)
    then show ?thesis by (simp add: length_concat o_def)
  qed
  moreover have "length (end_times ?ev) = length (start_times ?ev)"
    and "length (event ?ev) = length (start_times ?ev)" by simp_all
  ultimately show ?thesis using run by blast
qed

subsection \<open>The round trip of a file of two rows\<close>

lemma two_rows_file:
  assumes "os_path_join home p = Inr full_path" and "path_exists e full_path"
    and "read_text e full_path = ''0.0,1.0,C4\<newline>1.0,2.0,D4\<newline>''
       \<or> read_text e full_path = ''0.0,1.0,C4\<newline>1.0,2.0,D4''"
    and "to_float e ''0.0'' = Some 0" and "to_float e ''1.0'' = Some 1"
    and "to_float e ''2.0'' = Some 2"
  shows "load_score_file e home p = Inr ([0, 1], [1, 2], [''C4'', ''D4''])"
  using assms(3)
proof
  assume "read_text e full_path = ''0.0,1.0,C4\<newline>1.0,2.0,D4\<newline>''"
  with assms(1,2,4,5,6) show ?thesis
    by (simp add: load_score_file_def loadtxt_def readlines_def
        data_part_def str_strip_def parse_row_def columns_def read_notes_def list_get_def)
next
  assume "read_text e full_path = ''0.0,1.0,C4\<newline>1.0,2.0,D4''"
  with assms(1,2,4,5,6) show ?thesis
    by (simp add: load_score_file_def loadtxt_def readlines_def
        data_part_def str_strip_def parse_row_def columns_def read_notes_def list_get_def)
qed

text \<open>
  C6, as the code has it. Let \<open>X\<close> be an instrument of the piece whose score path \<open>p\<close>
  is the only score path of the piece that the pattern \<open>X\<close> matches, and let the file at
  \<open>p\<close> hold exactly the rows \<^verbatim>\<open>0.0,1.0,C4\<close> and \<^verbatim>\<open>1.0,2.0,D4\<close> (with or without a
  final newline). Then \<^verbatim>\<open>get_score_mix_instruments(["X"])\<close> returns exactly the two
  events \<open>(0, 1, C4)\<close> and \<open>(1, 2, D4)\<close>, in this order.
\<close>

theorem score_round_trip:
  assumes "X \<in> set (instruments mt)"
    and "dict_get index (mtrack_id mt) = Inr entry"
    and "map_of entry (''score-'' @ X) = Some (Files (p # rest))"
    and "match_paths X entry = Inr [p]"
    and "os_path_join (data_home mt) p = Inr full_path" and "path_exists e full_path"
    and "read_text e full_path = ''0.0,1.0,C4\<newline>1.0,2.0,D4\<newline>''
       \<or> read_text e full_path = ''0.0,1.0,C4\<newline>1.0,2.0,D4''"
    and "to_float e ''0.0'' = Some 0" and "to_float e ''1.0'' = Some 1"
    and "to_float e ''2.0'' = Some 2"
  shows "get_score_mix_instruments e index mt (Lst [X])
           = Inr \<lparr>start_times = [0, 1], end_times = [1, 2], event = [''C4'', ''D4'']\<rparr>"
proof -
  have f: "load_score_file e (data_home mt) p = Inr ([0, 1], [1, 2], [''C4'', ''D4''])"
    by (rule two_rows_file [OF assms(5-10)])
  show ?thesis
    using assms(1,2,4) f
    by (simp add: get_score_mix_instruments_def merge_defs upt_rec)
qed

lemma sample_violin_paths: "match_paths ''violin'' sample_entry = Inr [''s/violin.txt'']"
  by (simp add: re_defs sample_entry_def)

theorem score_round_trip_witness:
  "''violin'' \<in> set (instruments sample_mt)
 \<and> match_paths ''violin'' sample_entry = Inr [''s/violin.txt'']
 \<and> path_exists sample_env ''d/s/violin.txt''
 \<and> read_text sample_env ''d/s/violin.txt'' = ''0.0,1.0,C4\<newline>1.0,2.0,D4\<newline>''
 \<and> get_score_mix_instruments sample_env sample_index sample_mt (Lst [''violin''])
      = Inr \<lparr>start_times = [0, 1], end_times = [1, 2], event = [''C4'', ''D4'']\<rparr>"
proof -
  have a: "''violin'' \<in> set (instruments sample_mt)" by (simp add: sample_mt_def)
  have b: "dict_get sample_index (mtrack_id sample_mt) = Inr sample_entry"
    by (simp add: dict_get_def sample_index_def sample_mt_def)
  have c: "map_of sample_entry (''score-'' @ ''violin'') = Some (Files [''s/violin.txt'', ''c1''])"
    by (simp add: sample_entry_def)
  have d: "os_path_join (data_home sample_mt) ''s/violin.txt'' = Inr ''d/s/violin.txt''"
    by (simp add: os_path_join_def sample_mt_def)
  have f: "path_exists sample_env ''d/s/violin.txt''" by (simp add: sample_env_def)
  have g: "read_text sample_env ''d/s/violin.txt'' = ''0.0,1.0,C4\<newline>1.0,2.0,D4\<newline>''"
    by (simp add: sample_env_def)
  have h: "to_float sample_env ''0.0'' = Some 0" "to_float sample_env ''1.0'' = Some 1"
    "to_float sample_env ''2.0'' = Some 2"
    by (simp_all add: sample_env_def)
  from score_round_trip [OF a b c sample_violin_paths d f disjI1 [OF g] h]
    a sample_violin_paths f g
  show ?thesis by simp
qed

lemma bass_paths: "match_paths ''bass'' bass_entry = Inr [''s/bass.txt'', ''s/bassoon.txt'']"
  by (simp add: re_defs bass_entry_def)

lemma bass_file:
  "load_score_file bass_env (Some ''d'') ''s/bass.txt'' = Inr ([0, 1], [1, 2], [''C4'', ''D4''])"
  by (simp add: file_defs bass_env_def)

lemma bassoon_file:
  "load_score_file bass_env (Some ''d'') ''s/bassoon.txt''
     = Inr ([1 / 2, 3 / 2], [3 / 2, 2], [''A4'', ''G4''])"
  by (simp add: file_defs bass_env_def)

text \<open>
  C6 as stated fails: the score file of \<^verbatim>\<open>bass\<close> holds exactly the two rows, but the
  pattern \<^verbatim>\<open>bass\<close> also matches the path of the bassoon's score, and the call returns
  four events.
\<close>

theorem score_round_trip_counterexample:
  "MultiTrack_init bass_index ''p'' (Some ''d'') = Inr bass_mt
 \<and> ''bass'' \<in> set (instruments bass_mt)
 \<and> map_of bass_entry ''score-bass'' = Some (Files [''s/bass.txt'', ''c1''])
 \<and> read_text bass_env ''d/s/bass.txt'' = ''0.0,1.0,C4\<newline>1.0,2.0,D4\<newline>''
 \<and> get_score_mix_instruments bass_env bass_index bass_mt (Lst [''bass''])
      = Inr \<lparr>start_times = [0, 1 / 2, 1, 3 / 2], end_times = [1, 3 / 2, 2, 2],
             event = [''C4'', ''A4'', ''D4'', ''G4'']\<rparr>"
proof -
  have "MultiTrack_init bass_index ''p'' (Some ''d'') = Inr bass_mt"
    by (simp add: MultiTrack_init_cases bass_index_def bass_entry_def bass_mt_def
        parse_instruments_def corresponding_sections_def DATASET_SECTIONS_def)
  moreover have "''bass'' \<in> set (instruments bass_mt)" by (simp add: bass_mt_def)
  moreover have "map_of bass_entry ''score-bass'' = Some (Files [''s/bass.txt'', ''c1''])"
    by (simp add: bass_entry_def)
  moreover have "read_text bass_env ''d/s/bass.txt'' = ''0.0,1.0,C4\<newline>1.0,2.0,D4\<newline>''"
    by (simp add: bass_env_def)
  moreover have "get_score_mix_instruments bass_env bass_index bass_mt (Lst [''bass''])
      = Inr \<lparr>start_times = [0, 1 / 2, 1, 3 / 2], end_times = [1, 3 / 2, 2, 2],
             event = [''C4'', ''A4'', ''D4'', ''G4'']\<rparr>"
    by (simp add: get_score_mix_instruments_def bass_mt_def bass_index_def dict_get_def
        bass_paths bass_file bassoon_file merge_defs upt_rec)
  ultimately show ?thesis by simp
qed

end
